theory Spec2Isabelle
  imports
    Complex_Main
    "HOL-Library.Char_ord"
    "HOL-Library.List_Lexorder"
    "HOL-Library.Product_Lexorder"
    "HOL-Library.Option_ord"
    "HOL-Library.Multiset"
begin

section \<open>Paracon dashboard: normalisation and reconciliation pipeline of app.py\<close>

text \<open>
  The embedding follows \<^verbatim>\<open>app.py\<close> statement by statement. The script is written
  against pandas, so each pandas operation it calls is given its documented meaning:
  a Series is a list, a missing value (NaN, NaT, NA) is \<open>None\<close>, a DataFrame is an
  ordered list of named columns. Numbers are modelled as \<open>real\<close>, and \<open>None\<close> stands
  for NaN as well as for NA. Where the outcome of a library routine depends on more than
  that (the parsers, the sums over groups, the order a sort leaves equal values in), the
  routine is a parameter of the model.
\<close>

subsection \<open>Cells, series and frames\<close>

datatype cell = Null | Str string | Num real

type_synonym dataframe = "(string \<times> cell list) list"

text \<open>
  A timestamp is (year, month, day, nanosecond of the day); the lexicographic order on
  the tuple is the chronological order.
\<close>

type_synonym timestamp = "int \<times> nat \<times> nat \<times> int"

definition columns :: "dataframe \<Rightarrow> string list" where
  "columns df = map fst df"

text \<open>\<^verbatim>\<open>len(df)\<close>: every column of a frame has the same length.\<close>

definition nrows :: "dataframe \<Rightarrow> nat" where
  "nrows df = (case df of [] \<Rightarrow> 0 | (h, col) # _ \<Rightarrow> length col)"

text \<open>\<^verbatim>\<open>df[c]\<close> for a header that is present.\<close>

definition getcol :: "dataframe \<Rightarrow> string \<Rightarrow> cell list" where
  "getcol df c = (case map_of df c of Some col \<Rightarrow> col | None \<Rightarrow> [])"

definition notna :: "'a option \<Rightarrow> bool" where
  "notna v = (case v of None \<Rightarrow> False | Some x \<Rightarrow> True)"

subsection \<open>Column Resolver: \<^verbatim>\<open>find_col\<close>\<close>

text \<open>
  \<^verbatim>\<open>str.lower\<close> on the ASCII letters; the bytes of other characters are left as
  they are.
\<close>

definition lower_char :: "char \<Rightarrow> char" where
  "lower_char c =
     (if CHR ''A'' \<le> c \<and> c \<le> CHR ''Z'' then char_of (of_char c + (32::nat)) else c)"

definition lower :: "string \<Rightarrow> string" where
  "lower s = map lower_char s"

text \<open>
  \<^verbatim>\<open>cols = {str(c).lower(): c for c in df.columns}\<close>: the comprehension stores the
  headers from left to right, a later header replacing an earlier one under the same
  key.
\<close>

definition cols_dict :: "string list \<Rightarrow> (string \<rightharpoonup> string)" where
  "cols_dict cs = fold (\<lambda>c m. m(lower c \<mapsto> c)) cs Map.empty"

text \<open>
  \<^verbatim>\<open>for cand in candidates: if cand.lower() in cols: return cols[cand.lower()]\<close>,
  and \<^verbatim>\<open>return None\<close> after the loop.
\<close>

fun find_col_loop :: "(string \<rightharpoonup> string) \<Rightarrow> string list \<Rightarrow> string option" where
  "find_col_loop cols [] = None"
| "find_col_loop cols (cand # cands) =
     (case cols (lower cand) of
        Some c \<Rightarrow> Some c
      | None \<Rightarrow> find_col_loop cols cands)"

definition find_col :: "dataframe \<Rightarrow> string list \<Rightarrow> string option" where
  "find_col df candidates = find_col_loop (cols_dict (columns df)) candidates"

text \<open>Python truthiness of the resolver's result: \<^verbatim>\<open>None\<close> and \<^verbatim>\<open>""\<close> are false.\<close>

definition truthy :: "string option \<Rightarrow> bool" where
  "truthy c = (case c of None \<Rightarrow> False | Some s \<Rightarrow> s \<noteq> [])"

subsection \<open>Library routines taken as parameters\<close>

text \<open>
  Six pandas routines are fixed by the library and not by \<^verbatim>\<open>app.py\<close>; the model
  takes them as parameters and every theorem holds for all of them:
  \<^item> \<open>str_na\<close>: the text \<^verbatim>\<open>astype(str)\<close> gives a missing cell (\<^verbatim>\<open><NA>\<close> on the
    pyarrow backend the loader asks for, \<^verbatim>\<open>nan\<close> on the numpy one);
  \<^item> \<open>str_num\<close>: the text \<^verbatim>\<open>astype(str)\<close> gives a numeric cell;
  \<^item> \<open>parse_num\<close>: \<^verbatim>\<open>pd.to_numeric(errors="coerce")\<close> on a text cell;
  \<^item> \<open>parse_lenient\<close>: \<^verbatim>\<open>pd.to_datetime(errors="coerce", dayfirst=True,
    infer_datetime_format=True)\<close> on the sub-series of unresolved texts, before the
    result is stored as \<^verbatim>\<open>datetime64[ns]\<close>;
  \<^item> \<open>group_sum\<close>: the sum \<^verbatim>\<open>groupby(...)[col].sum()\<close> forms of the values of one
    group, taken in the order of their rows. What it makes of a NaN left by a coerced
    text, of an overflow of 64-bit integers and of the rounding of doubles is the
    library's; the outcome may be NaN;
  \<^item> \<open>sort_values_desc\<close>: \<^verbatim>\<open>sort_values("__Revenue", ascending=False)\<close> on the
    table of clients and sums. The call names no sorting kind, so the order it leaves
    rows with equal sums in is the library's.
\<close>

record pandas =
  str_na :: string
  str_num :: "real \<Rightarrow> string"
  parse_num :: "string \<Rightarrow> real option"
  parse_lenient :: "string list \<Rightarrow> timestamp option list"
  group_sum :: "real option list \<Rightarrow> real option"
  sort_values_desc :: "(string \<times> real option) list \<Rightarrow> (string \<times> real option) list"

fun astype_str :: "pandas \<Rightarrow> cell \<Rightarrow> string" where
  "astype_str lib Null = str_na lib"
| "astype_str lib (Str s) = s"
| "astype_str lib (Num x) = str_num lib x"

fun to_numeric :: "pandas \<Rightarrow> cell \<Rightarrow> real option" where
  "to_numeric lib Null = None"
| "to_numeric lib (Num x) = Some x"
| "to_numeric lib (Str s) = parse_num lib s"

subsection \<open>Date Normalizer: \<^verbatim>\<open>normalize_period\<close>\<close>

text \<open>\<^verbatim>\<open>str.strip()\<close>: the ASCII characters for which \<^verbatim>\<open>str.isspace\<close> holds.\<close>

definition is_space :: "char \<Rightarrow> bool" where
  "is_space c =
     (c \<in> set [CHR 0x09, CHR 0x0A, CHR 0x0B, CHR 0x0C, CHR 0x0D,
                CHR 0x1C, CHR 0x1D, CHR 0x1E, CHR 0x1F, CHR 0x20])"

definition strip :: "string \<Rightarrow> string" where
  "strip s = rev (dropWhile is_space (rev (dropWhile is_space s)))"

definition is_digit :: "char \<Rightarrow> bool" where
  "is_digit c = (CHR ''0'' \<le> c \<and> c \<le> CHR ''9'')"

definition digit_val :: "char \<Rightarrow> nat" where
  "digit_val c = of_char c - 48"

text \<open>
  The directives of the format \<^verbatim>\<open>%Y-%m-%d\<close>, as the strptime grammar has them:
  \<^verbatim>\<open>%Y\<close> is four digits, \<^verbatim>\<open>%m\<close> is \<^verbatim>\<open>1[0-2]|0[1-9]|[1-9]\<close> and \<^verbatim>\<open>%d\<close> is
  \<^verbatim>\<open>3[01]|[12]\d|0[1-9]|[1-9]| [1-9]\<close>, the alternatives tried in this order. Each
  function returns the value read and the rest of the text.
\<close>

fun strptime_Y :: "string \<Rightarrow> (int \<times> string) option" where
  "strptime_Y (a # b # c # d # rest) =
     (if is_digit a \<and> is_digit b \<and> is_digit c \<and> is_digit d
      then Some (int (1000 * digit_val a + 100 * digit_val b + 10 * digit_val c + digit_val d),
                 rest)
      else None)"
| "strptime_Y _ = None"

fun strptime_m :: "string \<Rightarrow> (nat \<times> string) option" where
  "strptime_m (a # b # rest) =
     (if a = CHR ''1'' \<and> CHR ''0'' \<le> b \<and> b \<le> CHR ''2'' then Some (10 + digit_val b, rest)
      else if a = CHR ''0'' \<and> CHR ''1'' \<le> b \<and> b \<le> CHR ''9'' then Some (digit_val b, rest)
      else if CHR ''1'' \<le> a \<and> a \<le> CHR ''9'' then Some (digit_val a, b # rest)
      else None)"
| "strptime_m [a] = (if CHR ''1'' \<le> a \<and> a \<le> CHR ''9'' then Some (digit_val a, []) else None)"
| "strptime_m [] = None"

fun strptime_d :: "string \<Rightarrow> (nat \<times> string) option" where
  "strptime_d (a # b # rest) =
     (if a = CHR ''3'' \<and> CHR ''0'' \<le> b \<and> b \<le> CHR ''1'' then Some (30 + digit_val b, rest)
      else if CHR ''1'' \<le> a \<and> a \<le> CHR ''2'' \<and> is_digit b
        then Some (10 * digit_val a + digit_val b, rest)
      else if a = CHR ''0'' \<and> CHR ''1'' \<le> b \<and> b \<le> CHR ''9'' then Some (digit_val b, rest)
      else if CHR ''1'' \<le> a \<and> a \<le> CHR ''9'' then Some (digit_val a, b # rest)
      else if a = CHR '' '' \<and> CHR ''1'' \<le> b \<and> b \<le> CHR ''9'' then Some (digit_val b, rest)
      else None)"
| "strptime_d [a] = (if CHR ''1'' \<le> a \<and> a \<le> CHR ''9'' then Some (digit_val a, []) else None)"
| "strptime_d [] = None"

definition is_leap :: "int \<Rightarrow> bool" where
  "is_leap y = (y mod 4 = 0 \<and> (y mod 100 \<noteq> 0 \<or> y mod 400 = 0))"

definition days_in_month :: "int \<Rightarrow> nat \<Rightarrow> nat" where
  "days_in_month y m =
     (if m = 2 then (if is_leap y then 29 else 28)
      else if m = 4 \<or> m = 6 \<or> m = 9 \<or> m = 11 then 30
      else 31)"

definition valid_date :: "int \<Rightarrow> nat \<Rightarrow> nat \<Rightarrow> bool" where
  "valid_date y m d = (1 \<le> m \<and> m \<le> 12 \<and> 1 \<le> d \<and> d \<le> days_in_month y m)"

text \<open>The literal \<^verbatim>\<open>-\<close> of the format: the next character has to be this one.\<close>

definition expect :: "char \<Rightarrow> string \<Rightarrow> string option" where
  "expect c s = (case s of [] \<Rightarrow> None | x # rest \<Rightarrow> if x = c then Some rest else None)"

text \<open>
  The whole text has to match the format (text left over is an error), and the fields
  have to name a day of the calendar.
\<close>

definition strptime_ymd :: "string \<Rightarrow> (int \<times> nat \<times> nat) option" where
  "strptime_ymd s =
     (case strptime_Y s of
        None \<Rightarrow> None
      | Some (y, r0) \<Rightarrow>
          (case expect (CHR ''-'') r0 of
             None \<Rightarrow> None
           | Some r1 \<Rightarrow>
               (case strptime_m r1 of
                  None \<Rightarrow> None
                | Some (m, r2) \<Rightarrow>
                    (case expect (CHR ''-'') r2 of
                       None \<Rightarrow> None
                     | Some r3 \<Rightarrow>
                         (case strptime_d r3 of
                            None \<Rightarrow> None
                          | Some (d, r4) \<Rightarrow>
                              if r4 = [] \<and> valid_date y m d then Some (y, m, d)
                              else None)))))"

text \<open>
  The values a \<^verbatim>\<open>datetime64[ns]\<close> series can hold: a signed 64-bit count of
  nanoseconds around 1970, from 1677-09-21 00:12:43.145224193 to
  2262-04-11 23:47:16.854775807. With \<^verbatim>\<open>errors="coerce"\<close> a parsed date outside
  these bounds becomes NaT.
\<close>

definition ts_min :: timestamp where
  "ts_min = (1677, 9, 21, 763145224193)"

definition ts_max :: timestamp where
  "ts_max = (2262, 4, 11, 85636854775807)"

definition coerce_ns :: "timestamp option \<Rightarrow> timestamp option" where
  "coerce_ns v =
     (case v of
        None \<Rightarrow> None
      | Some t \<Rightarrow> if ts_min \<le> t \<and> t \<le> ts_max then Some t else None)"

text \<open>\<^verbatim>\<open>pd.to_datetime(s, errors="coerce", format="%Y-%m-%d")\<close>, one element.\<close>

definition to_datetime_strict :: "string \<Rightarrow> timestamp option" where
  "to_datetime_strict s =
     (case strptime_ymd s of
        None \<Rightarrow> None
      | Some (y, m, d) \<Rightarrow> coerce_ns (Some (y, m, d, 0)))"

text \<open>
  \<^verbatim>\<open>pd.to_datetime(s[~m], errors="coerce", dayfirst=True, infer_datetime_format=True)\<close>
  on the unresolved texts: the library's inference, then the same bounds.
\<close>

definition to_datetime_lenient :: "pandas \<Rightarrow> string list \<Rightarrow> timestamp option list" where
  "to_datetime_lenient lib xs = map coerce_ns (parse_lenient lib xs)"

text \<open>
  \<^verbatim>\<open>out[m] = parsed[m]\<close> and \<^verbatim>\<open>out[~m] = ...\<close>: the dates of the first tier stay, the
  other positions take the values of the second tier from left to right.
\<close>

fun fill_unresolved :: "'a option list \<Rightarrow> 'a option list \<Rightarrow> 'a option list" where
  "fill_unresolved [] vs = []"
| "fill_unresolved (Some t # ps) vs = Some t # fill_unresolved ps vs"
| "fill_unresolved (None # ps) [] = None # fill_unresolved ps []"
| "fill_unresolved (None # ps) (v # vs) = v # fill_unresolved ps vs"

definition normalize_period :: "pandas \<Rightarrow> cell list \<Rightarrow> timestamp option list" where
  "normalize_period lib series =
     (let s = map (\<lambda>c. strip (astype_str lib c)) series;
          parsed = map to_datetime_strict s;
          unresolved = map fst (filter (\<lambda>(x, p). \<not> notna p) (zip s parsed))
      in if list_ex (\<lambda>p. \<not> notna p) parsed
         then fill_unresolved parsed (to_datetime_lenient lib unresolved)
         else parsed)"

subsection \<open>Fact Builder and Forecast Builder\<close>

record fact_row =
  Client :: string
  Period :: "timestamp option"
  Revenue :: "real option"
  Cost :: "real option"
  GP :: "real option"

record forecast_row =
  fc_Client :: string
  fc_Period :: "timestamp option"
  fc_Forecast :: "real option"

text \<open>
  \<^verbatim>\<open>normalize_period(fact[c_period]) if c_period else pd.NaT\<close>: the condition is the
  truthiness of the resolved header, the scalar is broadcast over the rows.
\<close>

definition period_column :: "pandas \<Rightarrow> dataframe \<Rightarrow> string option \<Rightarrow> timestamp option list" where
  "period_column lib df c_period =
     (case c_period of
        Some h \<Rightarrow> if truthy (Some h) then normalize_period lib (getcol df h)
                  else replicate (nrows df) None
      | None \<Rightarrow> replicate (nrows df) None)"

text \<open>
  \<^verbatim>\<open>pd.to_numeric(fact[c], errors="coerce") if c in fact else np.nan\<close>: the condition
  is membership of the resolved header in the headers of the frame, where \<open>added\<close> are
  the derived columns already stored in it.
\<close>

definition numeric_column ::
  "pandas \<Rightarrow> dataframe \<Rightarrow> string list \<Rightarrow> string option \<Rightarrow> real option list" where
  "numeric_column lib df added c =
     (case c of
        Some h \<Rightarrow> if h \<in> set (columns df @ added) then map (to_numeric lib) (getcol df h)
                  else replicate (nrows df) None
      | None \<Rightarrow> replicate (nrows df) None)"

text \<open>Subtraction of two float series: a NaN operand gives NaN.\<close>

definition sub_na :: "real option \<Rightarrow> real option \<Rightarrow> real option" where
  "sub_na a b =
     (case a of
        None \<Rightarrow> None
      | Some x \<Rightarrow> (case b of None \<Rightarrow> None | Some y \<Rightarrow> Some (x - y)))"

text \<open>\<^verbatim>\<open>fact[c_client].astype(str) if c_client else "(Unmapped)"\<close>.\<close>

definition client_column :: "pandas \<Rightarrow> dataframe \<Rightarrow> string option \<Rightarrow> string list" where
  "client_column lib df c_client =
     (case c_client of
        Some h \<Rightarrow> if truthy (Some h) then map (astype_str lib) (getcol df h)
                  else replicate (nrows df) ''(Unmapped)''
      | None \<Rightarrow> replicate (nrows df) ''(Unmapped)'')"

text \<open>
  The frame \<^verbatim>\<open>fact\<close> (lines 118 to 128), read row by row: the five derived columns of
  each row of the source sheet.
\<close>

definition fact :: "pandas \<Rightarrow> dataframe \<Rightarrow> fact_row list" where
  "fact lib df_source =
     (let c_client = find_col df_source [''Client'', ''Customer'', ''Account''];
          c_amount = find_col df_source [''Amount'', ''Value'', ''Revenue''];
          c_cost = find_col df_source [''Cost'', ''Costs'', ''Direct Cost''];
          c_period = find_col df_source [''Fin Period'', ''Period'', ''Month'', ''Date''];
          period = period_column lib df_source c_period;
          revenue = numeric_column lib df_source [''__Period''] c_amount;
          cost = numeric_column lib df_source [''__Period'', ''__Revenue''] c_cost;
          gp = map2 sub_na revenue cost;
          client = client_column lib df_source c_client
      in map (\<lambda>(cl, p, r, c, g).
                \<lparr>Client = cl, Period = p, Revenue = r, Cost = c, GP = g\<rparr>)
             (zip client (zip period (zip revenue (zip cost gp)))))"

text \<open>The frame \<^verbatim>\<open>forecast\<close> (lines 130 to 137).\<close>

definition forecast :: "pandas \<Rightarrow> dataframe \<Rightarrow> forecast_row list" where
  "forecast lib df_forecast =
     (let f_client = find_col df_forecast [''Client'', ''Customer''];
          f_period = find_col df_forecast [''Period'', ''Month'', ''Fin Period'', ''Date''];
          f_value = find_col df_forecast [''Forecast'', ''Amount'', ''Value'', ''Revenue''];
          period = period_column lib df_forecast f_period;
          value = numeric_column lib df_forecast [''__Period''] f_value;
          client = client_column lib df_forecast f_client
      in map (\<lambda>(cl, p, v). \<lparr>fc_Client = cl, fc_Period = p, fc_Forecast = v\<rparr>)
             (zip client (zip period value)))"

subsection \<open>Filter Engine: \<^verbatim>\<open>mask\<close>, \<^verbatim>\<open>fmask\<close>, \<^verbatim>\<open>fact_f\<close>, \<^verbatim>\<open>forecast_f\<close>\<close>

definition isin :: "string list \<Rightarrow> string list \<Rightarrow> bool list" where
  "isin series vals = map (\<lambda>v. v \<in> set vals) series"

text \<open>\<^verbatim>\<open>Series.between(left, right)\<close>, both ends included; NaT compares false.\<close>

definition between :: "timestamp option list \<Rightarrow> timestamp \<Rightarrow> timestamp \<Rightarrow> bool list" where
  "between series left right =
     map (\<lambda>v. case v of None \<Rightarrow> False | Some p \<Rightarrow> left \<le> p \<and> p \<le> right) series"

text \<open>
  \<^verbatim>\<open>(clients.isin(sel_clients) if sel_clients else True) & periods.between(lo, hi)\<close>:
  an empty selection is false in Python, and the scalar \<^verbatim>\<open>True\<close> is broadcast.
\<close>

definition mask_of ::
  "string list \<Rightarrow> timestamp option list \<Rightarrow> string list \<Rightarrow> timestamp \<times> timestamp \<Rightarrow> bool list" where
  "mask_of clients periods sel_clients sel_date =
     map2 (\<lambda>a b. a \<and> b)
       (if sel_clients \<noteq> [] then isin clients sel_clients
        else replicate (length clients) True)
       (between periods (fst sel_date) (snd sel_date))"

definition mask :: "fact_row list \<Rightarrow> string list \<Rightarrow> timestamp \<times> timestamp \<Rightarrow> bool list" where
  "mask fct sel_clients sel_date =
     mask_of (map Client fct) (map Period fct) sel_clients sel_date"

definition fmask :: "forecast_row list \<Rightarrow> string list \<Rightarrow> timestamp \<times> timestamp \<Rightarrow> bool list" where
  "fmask fc sel_clients sel_date =
     mask_of (map fc_Client fc) (map fc_Period fc) sel_clients sel_date"

text \<open>\<^verbatim>\<open>df[mask]\<close>: the rows whose mask entry is true, in their order.\<close>

definition select_rows :: "'a list \<Rightarrow> bool list \<Rightarrow> 'a list" where
  "select_rows rows m = map fst (filter snd (zip rows m))"

definition fact_f :: "fact_row list \<Rightarrow> string list \<Rightarrow> timestamp \<times> timestamp \<Rightarrow> fact_row list" where
  "fact_f fct sel_clients sel_date = select_rows fct (mask fct sel_clients sel_date)"

definition forecast_f ::
  "forecast_row list \<Rightarrow> string list \<Rightarrow> timestamp \<times> timestamp \<Rightarrow> forecast_row list" where
  "forecast_f fc sel_clients sel_date = select_rows fc (fmask fc sel_clients sel_date)"

subsection \<open>Aggregator: KPIs\<close>

text \<open>
  \<^verbatim>\<open>Series.sum(skipna=True)\<close> on a column of numbers and missing values: the
  missing values are left out and the sum of what remains is returned, which is 0 when
  nothing remains (pandas' \<^verbatim>\<open>min_count\<close> is 0 by default). Rounding of doubles, an
  overflow of 64-bit integers and a NaN that the pyarrow backend keeps from a coerced
  text are outside this definition.
\<close>

fun sum_skipna :: "real option list \<Rightarrow> real" where
  "sum_skipna [] = 0"
| "sum_skipna (None # vs) = sum_skipna vs"
| "sum_skipna (Some v # vs) = v + sum_skipna vs"

text \<open>The scalars \<^verbatim>\<open>rev\<close>, \<^verbatim>\<open>cost\<close>, \<^verbatim>\<open>gp\<close> and \<^verbatim>\<open>margin\<close> (lines 166 to 169).\<close>

definition rev_kpi :: "fact_row list \<Rightarrow> real option" where
  "rev_kpi ff = Some (sum_skipna (map Revenue ff))"

definition cost_kpi :: "fact_row list \<Rightarrow> real option" where
  "cost_kpi ff = Some (sum_skipna (map Cost ff))"

definition gp_kpi :: "fact_row list \<Rightarrow> real option" where
  "gp_kpi ff = Some (sum_skipna (map GP ff))"

text \<open>
  \<^verbatim>\<open>(gp / rev * 100) if pd.notna(rev) and rev != 0 else np.nan\<close>: the quotient is
  formed in the first branch only.
\<close>

definition margin :: "fact_row list \<Rightarrow> real option" where
  "margin ff =
     (case rev_kpi ff of
        None \<Rightarrow> None
      | Some r \<Rightarrow>
          if r \<noteq> 0
          then (case gp_kpi ff of None \<Rightarrow> None | Some g \<Rightarrow> Some (g / r * 100))
          else None)"

text \<open>
  The loop over the four cards (lines 171 to 184): \<^verbatim>\<open>pd.isna(val)\<close> shows the dash
  with "No data", any other value is formatted.
\<close>

datatype card = No_data | Shown real

definition kpi_card :: "real option \<Rightarrow> card" where
  "kpi_card val = (case val of None \<Rightarrow> No_data | Some v \<Rightarrow> Shown v)"

definition kpi_cards :: "fact_row list \<Rightarrow> (string \<times> card) list" where
  "kpi_cards ff =
     map (\<lambda>(title, val). (title, kpi_card val))
       [(''Revenue'', rev_kpi ff), (''Cost'', cost_kpi ff),
        (''Gross Profit'', gp_kpi ff), (''Margin %'', margin ff)]"

subsection \<open>Aggregator: grouped tables\<close>

text \<open>
  \<^verbatim>\<open>groupby(key, as_index=False)[col].sum()\<close>: one row per distinct key, the keys in
  ascending order (\<^verbatim>\<open>sort=True\<close> is the default), each with the library's sum of the
  values of its rows, the rows taken in their order in the table.
\<close>

definition groupby_sum ::
  "pandas \<Rightarrow> ('k::linorder \<times> real option) list \<Rightarrow> ('k \<times> real option) list" where
  "groupby_sum lib rows =
     map (\<lambda>k. (k, group_sum lib (map snd (filter (\<lambda>r. fst r = k) rows))))
       (sort (remdups (map fst rows)))"

text \<open>\<^verbatim>\<open>dt.to_period("M").dt.to_timestamp()\<close>: the first instant of the month.\<close>

definition month_start :: "timestamp \<Rightarrow> timestamp" where
  "month_start t = (case t of (y, m, d, ns) \<Rightarrow> (y, m, 1, 0))"

text \<open>
  \<^verbatim>\<open>dropna(subset=["__Period"]).assign(Period=month start).groupby("Period",
  as_index=False)[col].sum()\<close> over the pairs (period, value) of a frame.
\<close>

definition monthly ::
  "pandas \<Rightarrow> (timestamp option \<times> real option) list \<Rightarrow> (timestamp \<times> real option) list" where
  "monthly lib rows =
     groupby_sum lib
       (concat (map (\<lambda>(p, v). case p of None \<Rightarrow> [] | Some t \<Rightarrow> [(month_start t, v)]) rows))"

text \<open>The revenue trend \<^verbatim>\<open>ts\<close>, built only when some period is present (line 190).\<close>

definition ts :: "pandas \<Rightarrow> fact_row list \<Rightarrow> (timestamp \<times> real option) list option" where
  "ts lib ff =
     (if list_ex (\<lambda>r. notna (Period r)) ff
      then Some (monthly lib (map (\<lambda>r. (Period r, Revenue r)) ff))
      else None)"



text \<open>
  One sort that keeps the promise: pandas reverses the rows, sorts them in ascending
  order and reverses the outcome, and with insertion sort underneath, which is what the
  default kind runs on a short table, rows with equal sums keep the order they had.
  The sample library below sorts this way.
\<close>

definition stable_sort_desc :: "('a \<Rightarrow> 'b::linorder) \<Rightarrow> 'a list \<Rightarrow> 'a list" where
  "stable_sort_desc f xs = rev (sort_key f (rev xs))"

text \<open>
  \<^verbatim>\<open>pd.merge(act, fc, on="Period", how="outer")\<close> of two tables with one row per key:
  one row for each key of either table, the keys in ascending order, and NaN in the
  column of a table that does not have the key.
\<close>

definition lookup_na :: "('k \<times> real option) list \<Rightarrow> 'k \<Rightarrow> real option" where
  "lookup_na table k = (case map_of table k of None \<Rightarrow> None | Some v \<Rightarrow> v)"

definition merge_outer ::
  "(timestamp \<times> real option) list \<Rightarrow> (timestamp \<times> real option) list \<Rightarrow>
   (timestamp \<times> real option \<times> real option) list" where
  "merge_outer act fc =
     map (\<lambda>k. (k, lookup_na act k, lookup_na fc k)) (sort (remdups (map fst act @ map fst fc)))"

text \<open>
  The reconciliation table \<^verbatim>\<open>af\<close> (lines 203 to 212), \<open>None\<close> when the guard of line
  203 is false and the table is never built. The months of the merged table are
  distinct, so \<^verbatim>\<open>sort_values("Period")\<close> has one outcome whatever the kind of sort.
\<close>

definition af ::
  "pandas \<Rightarrow> fact_row list \<Rightarrow> forecast_row list \<Rightarrow>
   (timestamp \<times> real option \<times> real option) list option" where
  "af lib ff fcf =
     (if list_ex (\<lambda>r. notna (fc_Period r)) fcf
      then (let act = monthly lib (map (\<lambda>r. (Period r, Revenue r)) ff);
                fc = monthly lib (map (\<lambda>r. (fc_Period r, fc_Forecast r)) fcf)
            in Some (sort_key fst (merge_outer act fc)))
      else None)"

subsection \<open>Specification of an ISO date text\<close>

text \<open>
  The text \<^verbatim>\<open>YYYY-MM-DD\<close> of a date: four digits of the year, two of the month and
  two of the day. This is the reading of "valid ISO date string" that the normalizer is
  compared with (together with \<open>valid_date\<close>); the code does not use it.
\<close>

definition digit_char :: "nat \<Rightarrow> char" where
  "digit_char n = char_of (48 + n)"

definition iso_string :: "nat \<Rightarrow> nat \<Rightarrow> nat \<Rightarrow> string" where
  "iso_string y m d =
     [digit_char (y div 1000 mod 10), digit_char (y div 100 mod 10),
      digit_char (y div 10 mod 10), digit_char (y mod 10), CHR ''-'',
      digit_char (m div 10), digit_char (m mod 10), CHR ''-'',
      digit_char (d div 10), digit_char (d mod 10)]"

subsection \<open>Specification of the monthly sums\<close>


subsection \<open>Sample inputs\<close>

text \<open>
  A library instance, a source sheet and record lists on which the theorems below are
  run. The sample lenient parser reads ISO dates only, the sample sum over a group is
  the sum of the numbers present, and the sample sort is the stable one.
\<close>

definition demo_lib :: pandas where
  "demo_lib =
     \<lparr>str_na = ''<NA>'', str_num = (\<lambda>x. ''0''), parse_num = (\<lambda>s. None),
      parse_lenient = map (\<lambda>s. map_option (\<lambda>(y, m, d). (y, m, d, 0)) (strptime_ymd s)),
      group_sum = (\<lambda>vs. Some (sum_skipna vs)),
      sort_values_desc = stable_sort_desc snd\<rparr>"

definition demo_source :: dataframe where
  "demo_source =
     [(''Client'', [Str ''A'', Null, Str ''B'']),
      (''amount'', [Num 3, Null, Num 5]),
      (''Cost'', [Num 1, Num 1, Null]),
      (''Date'', [Str '' 2025-01-05'', Str ''x'', Str ''2025-02-10''])]"

definition demo_facts :: "fact_row list" where
  "demo_facts =
     [\<lparr>Client = ''B'', Period = Some (2025, 1, 5, 0), Revenue = Some 300,
       Cost = Some 100, GP = Some 200\<rparr>,
      \<lparr>Client = ''A'', Period = Some (2025, 2, 10, 0), Revenue = Some 300,
       Cost = None, GP = None\<rparr>,
      \<lparr>Client = ''C'', Period = None, Revenue = Some 100,
       Cost = Some 40, GP = Some 60\<rparr>,
      \<lparr>Client = ''A'', Period = Some (2025, 2, 20, 0), Revenue = Some (- 300),
       Cost = Some 10, GP = Some (- 310)\<rparr>]"

definition demo_zero :: "fact_row list" where
  "demo_zero =
     [\<lparr>Client = ''A'', Period = Some (2025, 2, 10, 0), Revenue = Some 300,
       Cost = None, GP = None\<rparr>,
      \<lparr>Client = ''A'', Period = Some (2025, 2, 20, 0), Revenue = Some (- 300),
       Cost = Some 10, GP = Some (- 310)\<rparr>]"



definition demo_forecasts :: "forecast_row list" where
  "demo_forecasts =
     [\<lparr>fc_Client = ''A'', fc_Period = Some (2025, 2, 7, 0), fc_Forecast = Some 40\<rparr>,
      \<lparr>fc_Client = ''B'', fc_Period = Some (2025, 3, 1, 0), fc_Forecast = Some 25\<rparr>,
      \<lparr>fc_Client = ''B'', fc_Period = None, fc_Forecast = Some 7\<rparr>]"

section \<open>Properties\<close>

subsection \<open>Column Resolver\<close>

lemma cols_dict_snoc:
  "cols_dict (cs @ [c]) = (cols_dict cs)(lower c \<mapsto> c)"
  by (simp add: cols_dict_def)

lemma cols_dict_last:
  "cols_dict cs k =
     (if filter (\<lambda>h. lower h = k) cs = [] then None
      else Some (last (filter (\<lambda>h. lower h = k) cs)))"
proof (induction cs rule: rev_induct)
  case Nil
  then show ?case by (simp add: cols_dict_def)
next
  case (snoc c cs)
  show ?case
  proof (cases "lower c = k")
    case True
    then show ?thesis
      by (simp add: cols_dict_snoc)
  next
    case False
    with snoc show ?thesis
      by (simp add: cols_dict_snoc)
  qed
qed

lemma cols_dict_None:
  "cols_dict cs k = None \<longleftrightarrow> k \<notin> lower ` set cs"
  by (auto simp: cols_dict_last filter_empty_conv)

lemma find_col_loop_find:
  "find_col_loop cols cands =
     (case List.find (\<lambda>cand. cols (lower cand) \<noteq> None) cands of
        None \<Rightarrow> None
      | Some cand \<Rightarrow> cols (lower cand))"
  by (induction cands) (auto split: option.splits)

text \<open>
  C7 (amended). For every table and ordered candidate list, the resolver answers with
  the first candidate, in the caller's order, whose lower-cased form is the lower-cased
  form of some header, and reports absence when there is none. What it returns is the
  header, and when several headers are equal case-insensitively it is the last of them
  in the table, since a later entry of the lookup replaces an earlier one.
\<close>

theorem find_col_first_candidate_last_header:
  "find_col df candidates =
     (case List.find (\<lambda>cand. lower cand \<in> lower ` set (columns df)) candidates of
        None \<Rightarrow> None
      | Some cand \<Rightarrow> Some (last (filter (\<lambda>h. lower h = lower cand) (columns df))))"
proof -
  have P: "(\<lambda>cand. cols_dict (columns df) (lower cand) \<noteq> None) =
           (\<lambda>cand. lower cand \<in> lower ` set (columns df))"
    by (simp add: cols_dict_None)
  show ?thesis
  proof (cases "List.find (\<lambda>cand. lower cand \<in> lower ` set (columns df)) candidates")
    case None
    then show ?thesis
      unfolding find_col_def find_col_loop_find P by simp
  next
    case (Some cand)
    then have "lower cand \<in> lower ` set (columns df)"
      by (auto simp: find_Some_iff)
    then have "filter (\<lambda>h. lower h = lower cand) (columns df) \<noteq> []"
      by (auto simp: filter_empty_conv)
    then have "cols_dict (columns df) (lower cand) =
               Some (last (filter (\<lambda>h. lower h = lower cand) (columns df)))"
      by (simp add: cols_dict_last)
    with Some show ?thesis
      unfolding find_col_def find_col_loop_find P by simp
  qed
qed

text \<open>
  The amended C7 on a table with the headers CLIENT, Amount, client and the candidates
  Customer, Client: the second candidate is the first to match, and the header returned
  is the last of the two that match it.
\<close>

theorem find_col_first_candidate_last_header_witness:
  "find_col [(''CLIENT'', []), (''Amount'', []), (''client'', [])] [''Customer'', ''Client'']
     = Some ''client''"
proof -
  have "find_col [(''CLIENT'', []), (''Amount'', []), (''client'', [])]
          [''Customer'', ''Client'']
     = (case List.find
               (\<lambda>cand. lower cand
                  \<in> lower ` set (columns [(''CLIENT'', []), (''Amount'', []), (''client'', [])]))
               [''Customer'', ''Client''] of
          None \<Rightarrow> None
        | Some cand \<Rightarrow>
            Some (last (filter (\<lambda>h. lower h = lower cand)
                          (columns [(''CLIENT'', []), (''Amount'', []), (''client'', [])]))))"
    by (rule find_col_first_candidate_last_header)
  also have "\<dots> = Some ''client''"
    by code_simp
  finally show ?thesis .
qed

text \<open>
  C7 as stated fails: with the headers Client and CLIENT, in this order, the candidate
  Client resolves to CLIENT, the second of the two headers, not the first.
\<close>

theorem find_col_duplicate_headers_counterexample:
  "find_col [(''Client'', []), (''CLIENT'', [])] [''Client''] = Some ''CLIENT'' \<and>
   find_col [(''Client'', []), (''CLIENT'', [])] [''Client''] \<noteq> Some ''Client''"
  by code_simp

subsection \<open>Date Normalizer\<close>

lemma digits_table:
  "\<forall>n \<in> set [0..<10]. is_digit (digit_char n) \<and> digit_val (digit_char n) = n"
  by code_simp

lemma digit_char_ok:
  assumes "n < 10"
  shows "is_digit (digit_char n)" and "digit_val (digit_char n) = n"
proof -
  from assms have "n \<in> set [0..<10]" by simp
  with digits_table show "is_digit (digit_char n)" and "digit_val (digit_char n) = n"
    by blast+
qed

lemma strptime_Y_digits:
  assumes "y < 10000"
  shows "strptime_Y (digit_char (y div 1000 mod 10) # digit_char (y div 100 mod 10) #
                     digit_char (y div 10 mod 10) # digit_char (y mod 10) # rest) =
         Some (int y, rest)"
proof -
  have d1: "y div 10 div 10 = y div 100" by (simp add: div_mult2_eq)
  have d2: "y div 100 div 10 = y div 1000" by (simp add: div_mult2_eq)
  from assms have d3: "y div 1000 mod 10 = y div 1000" by simp
  have e0: "y = 10 * (y div 10) + y mod 10" by simp
  have e1: "y div 10 = 10 * (y div 100) + y div 10 mod 10"
    using mult_div_mod_eq [of 10 "y div 10"] d1 by simp
  have e2: "y div 100 = 10 * (y div 1000) + y div 100 mod 10"
    using mult_div_mod_eq [of 10 "y div 100"] d2 by simp
  from e0 e1 e2 d3
  have "1000 * (y div 1000 mod 10) + 100 * (y div 100 mod 10) + 10 * (y div 10 mod 10)
          + y mod 10 = y"
    by linarith
  then have v: "int (1000 * (y div 1000 mod 10) + 100 * (y div 100 mod 10) +
                   10 * (y div 10 mod 10) + y mod 10) = int y"
    by (simp only:)
  have lt: "y div 1000 mod 10 < 10" "y div 100 mod 10 < 10" "y div 10 mod 10 < 10"
    "y mod 10 < 10"
    by simp_all
  show ?thesis
    by (simp only: strptime_Y.simps digit_char_ok [OF lt(1)] digit_char_ok [OF lt(2)]
        digit_char_ok [OF lt(3)] digit_char_ok [OF lt(4)] v simp_thms if_True)
qed

lemma strptime_m_rest:
  "strptime_m (a # b # rest) =
     (case strptime_m [a, b] of None \<Rightarrow> None | Some (v, r) \<Rightarrow> Some (v, r @ rest))"
  by simp

lemma strptime_d_rest:
  "strptime_d (a # b # rest) =
     (case strptime_d [a, b] of None \<Rightarrow> None | Some (v, r) \<Rightarrow> Some (v, r @ rest))"
  by simp

lemma months_table:
  "\<forall>m \<in> set [1..<13]. strptime_m [digit_char (m div 10), digit_char (m mod 10)] = Some (m, [])"
  by code_simp

lemma days_table:
  "\<forall>d \<in> set [1..<32]. strptime_d [digit_char (d div 10), digit_char (d mod 10)] = Some (d, [])"
  by code_simp

lemma strptime_m_digits:
  assumes "1 \<le> m" "m \<le> 12"
  shows "strptime_m (digit_char (m div 10) # digit_char (m mod 10) # rest) = Some (m, rest)"
proof -
  from assms have "m \<in> set [1..<13]" by simp
  with months_table
  have h: "strptime_m [digit_char (m div 10), digit_char (m mod 10)] = Some (m, [])"
    by (rule bspec)
  show ?thesis
    by (simp only: strptime_m_rest [of _ _ rest] h option.case prod.case append_Nil)
qed

lemma strptime_d_digits:
  assumes "1 \<le> d" "d \<le> 31"
  shows "strptime_d (digit_char (d div 10) # digit_char (d mod 10) # rest) = Some (d, rest)"
proof -
  from assms have "d \<in> set [1..<32]" by simp
  with days_table
  have h: "strptime_d [digit_char (d div 10), digit_char (d mod 10)] = Some (d, [])"
    by (rule bspec)
  show ?thesis
    by (simp only: strptime_d_rest [of _ _ rest] h option.case prod.case append_Nil)
qed

lemma valid_date_bounds:
  assumes "valid_date y m d"
  shows "1 \<le> m" "m \<le> 12" "1 \<le> d" "d \<le> 31"
  using assms by (auto simp: valid_date_def days_in_month_def split: if_splits)

lemma strptime_ymd_iso:
  assumes "y < 10000" "valid_date (int y) m d"
  shows "strptime_ymd (iso_string y m d) = Some (int y, m, d)"
proof -
  note b = valid_date_bounds [OF assms(2)]
  show ?thesis
    unfolding strptime_ymd_def iso_string_def
    by (simp only: strptime_Y_digits [OF assms(1)] strptime_m_digits [OF b(1,2)]
        strptime_d_digits [OF b(3,4)] expect_def option.case prod.case list.case
        if_True simp_thms assms(2))
qed

lemma to_datetime_strict_iso:
  assumes "y < 10000" "valid_date (int y) m d"
    and "ts_min \<le> (int y, m, d, 0)" "(int y, m, d, 0) \<le> ts_max"
  shows "to_datetime_strict (iso_string y m d) = Some (int y, m, d, 0)"
  using assms(3,4)
  by (simp add: to_datetime_strict_def strptime_ymd_iso [OF assms(1,2)] coerce_ns_def)

lemma length_fill_unresolved: "length (fill_unresolved ps vs) = length ps"
  by (induction ps vs rule: fill_unresolved.induct) simp_all

lemma fill_unresolved_nth:
  "i < length ps \<Longrightarrow> ps ! i = Some t \<Longrightarrow> fill_unresolved ps vs ! i = Some t"
proof (induction ps vs arbitrary: i rule: fill_unresolved.induct)
  case (1 vs)
  then show ?case by simp
next
  case (2 t' ps vs)
  then show ?case by (cases i) simp_all
next
  case (3 ps)
  then show ?case by (cases i) simp_all
next
  case (4 ps v vs)
  then show ?case by (cases i) simp_all
qed

lemma length_normalize_period: "length (normalize_period lib series) = length series"
  by (simp add: normalize_period_def Let_def length_fill_unresolved)

lemma normalize_period_strict:
  assumes "i < length series"
    and "to_datetime_strict (strip (astype_str lib (series ! i))) = Some t"
  shows "normalize_period lib series ! i = Some t"
proof -
  define parsed where
    "parsed = map to_datetime_strict (map (\<lambda>c. strip (astype_str lib c)) series)"
  from assms have p: "i < length parsed" "parsed ! i = Some t"
    by (simp_all add: parsed_def)
  then have "fill_unresolved parsed vs ! i = Some t" for vs
    by (rule fill_unresolved_nth)
  with p show ?thesis
    by (simp add: normalize_period_def Let_def parsed_def)
qed

text \<open>
  C3 (amended). For every cell whose stripped text is the ISO text of a calendar date
  that a nanosecond timestamp can hold (from 1677-09-22 to 2262-04-11), the strict first
  tier reads exactly that date, and the normalizer returns it at the cell's position
  whatever the lenient second tier would make of any text: such a value is never
  reinterpreted.
\<close>

theorem normalize_period_iso:
  assumes "i < length series"
    and "strip (astype_str lib (series ! i)) = iso_string y m d"
    and "y < 10000" and "valid_date (int y) m d"
    and "ts_min \<le> (int y, m, d, 0)" and "(int y, m, d, 0) \<le> ts_max"
  shows "to_datetime_strict (iso_string y m d) = Some (int y, m, d, 0) \<and>
         length (normalize_period lib series) = length series \<and>
         normalize_period lib series ! i = Some (int y, m, d, 0)"
proof -
  have s: "to_datetime_strict (iso_string y m d) = Some (int y, m, d, 0)"
    using assms(3-6) by (rule to_datetime_strict_iso)
  with assms(1,2) have "normalize_period lib series ! i = Some (int y, m, d, 0)"
    by (simp add: normalize_period_strict)
  with s show ?thesis
    by (simp add: length_normalize_period)
qed

lemma demo_dates:
  "strip (astype_str demo_lib (getcol demo_source ''Date'' ! 0)) = iso_string 2025 1 5"
  "0 < length (getcol demo_source ''Date'')"
  "valid_date (int 2025) 1 5"
  "ts_min \<le> (int 2025, 1, 5, 0)"
  "(int 2025, 1, 5, 0) \<le> ts_max"
  by code_simp+

text \<open>
  The amended C3 on the date column of the sample sheet, whose first cell is the text
  2025-01-05 after a blank.
\<close>

theorem normalize_period_iso_witness:
  "strip (astype_str demo_lib (getcol demo_source ''Date'' ! 0)) = iso_string 2025 1 5 \<and>
   valid_date (int 2025) 1 5 \<and>
   normalize_period demo_lib (getcol demo_source ''Date'') ! 0 = Some (2025, 1, 5, 0)"
proof -
  have "(2025::nat) < 10000" by simp
  from normalize_period_iso [OF demo_dates(2) demo_dates(1) this demo_dates(3-5)] demo_dates
  show ?thesis by simp
qed

text \<open>
  C3 as stated fails: 3000-01-01 is the ISO text of a calendar date, the strict tier
  does not return it (the date is beyond what \<^verbatim>\<open>datetime64[ns]\<close> holds and is
  coerced to NaT), and the normalizer returns no date, even with a second tier that
  reads ISO dates.
\<close>

theorem normalize_period_out_of_range_counterexample:
  "iso_string 3000 1 1 = ''3000-01-01'' \<and> valid_date 3000 1 1 \<and>
   to_datetime_strict ''3000-01-01'' = None \<and>
   normalize_period demo_lib [Str ''3000-01-01''] = [None]"
  by code_simp

subsection \<open>Fact Builder: gross profit\<close>

lemma zip3_map2:
  "(r, c, g) \<in> set (zip rs (zip cs (map2 f rs cs))) \<Longrightarrow> g = f r c"
  by (auto simp: set_zip)

lemma fact_row_gp:
  assumes "row \<in> set (fact lib df_source)"
  shows "GP row = sub_na (Revenue row) (Cost row)"
proof -
  define rs where
    "rs = numeric_column lib df_source [''__Period'']
            (find_col df_source [''Amount'', ''Value'', ''Revenue''])"
  define cs where
    "cs = numeric_column lib df_source [''__Period'', ''__Revenue'']
            (find_col df_source [''Cost'', ''Costs'', ''Direct Cost''])"
  from assms obtain cls ps cl p r c g where
    row: "row = \<lparr>Client = cl, Period = p, Revenue = r, Cost = c, GP = g\<rparr>"
    and mem: "(cl, p, r, c, g) \<in> set (zip cls (zip ps (zip rs (zip cs (map2 sub_na rs cs)))))"
    unfolding fact_def Let_def rs_def cs_def by auto
  from mem have "(p, r, c, g) \<in> set (zip ps (zip rs (zip cs (map2 sub_na rs cs))))"
    by (rule set_zip_rightD)
  then have "(r, c, g) \<in> set (zip rs (zip cs (map2 sub_na rs cs)))"
    by (rule set_zip_rightD)
  then have "g = sub_na r c" by (rule zip3_map2)
  with row show ?thesis by simp
qed

lemma demo_fact_rows:
  "fact demo_lib demo_source =
     [\<lparr>Client = ''A'', Period = Some (2025, 1, 5, 0), Revenue = Some 3, Cost = Some 1,
       GP = Some 2\<rparr>,
      \<lparr>Client = ''<NA>'', Period = None, Revenue = None, Cost = Some 1, GP = None\<rparr>,
      \<lparr>Client = ''B'', Period = Some (2025, 2, 10, 0), Revenue = Some 5, Cost = None,
       GP = None\<rparr>]"
  by code_simp

text \<open>
  C4. For every row of the fact table, the gross profit is revenue minus cost when both
  are present, and it is missing whenever revenue or cost is missing: no zero stands in
  for a missing operand.
\<close>

theorem fact_gp_null_propagation:
  assumes "row \<in> set (fact lib df_source)"
  shows "(\<forall>x y. Revenue row = Some x \<and> Cost row = Some y \<longrightarrow> GP row = Some (x - y)) \<and>
         (Revenue row = None \<or> Cost row = None \<longrightarrow> GP row = None)"
  using fact_row_gp [OF assms] by (auto simp: sub_na_def split: option.splits)

text \<open>
  C4 on the sample sheet: the first row has revenue 3 and cost 1 and gross profit 2, the
  second row has no revenue and no gross profit, the third has no cost and no gross
  profit.
\<close>

theorem fact_gp_null_propagation_witness:
  "fact demo_lib demo_source ! 0 \<in> set (fact demo_lib demo_source) \<and>
   Revenue (fact demo_lib demo_source ! 0) = Some 3 \<and>
   Cost (fact demo_lib demo_source ! 0) = Some 1 \<and>
   GP (fact demo_lib demo_source ! 0) = Some (3 - 1) \<and>
   fact demo_lib demo_source ! 1 \<in> set (fact demo_lib demo_source) \<and>
   Revenue (fact demo_lib demo_source ! 1) = None \<and>
   GP (fact demo_lib demo_source ! 1) = None \<and>
   fact demo_lib demo_source ! 2 \<in> set (fact demo_lib demo_source) \<and>
   Cost (fact demo_lib demo_source ! 2) = None \<and>
   GP (fact demo_lib demo_source ! 2) = None"
proof -
  have m0: "fact demo_lib demo_source ! 0 \<in> set (fact demo_lib demo_source)"
    and m1: "fact demo_lib demo_source ! 1 \<in> set (fact demo_lib demo_source)"
    and m2: "fact demo_lib demo_source ! 2 \<in> set (fact demo_lib demo_source)"
    by (simp_all add: demo_fact_rows)
  have v: "Revenue (fact demo_lib demo_source ! 0) = Some 3"
    "Cost (fact demo_lib demo_source ! 0) = Some 1"
    "Revenue (fact demo_lib demo_source ! 1) = None"
    "Cost (fact demo_lib demo_source ! 2) = None"
    by (simp_all add: demo_fact_rows)
  from fact_gp_null_propagation [OF m0] fact_gp_null_propagation [OF m1]
    fact_gp_null_propagation [OF m2] m0 m1 m2 v
  show ?thesis by simp
qed

subsection \<open>Fact Builder: client key\<close>

lemma lower_Nil_iff: "lower h = lower c \<Longrightarrow> c \<noteq> [] \<Longrightarrow> h \<noteq> []"
  by (auto simp: lower_def)

lemma find_col_loop_Some:
  "find_col_loop cols cands = Some h \<Longrightarrow> \<exists>c \<in> set cands. cols (lower c) = Some h"
  by (induction cands) (auto split: option.splits)

lemma cols_dict_Some: "cols_dict cs k = Some h \<Longrightarrow> h \<in> set cs \<and> lower h = k"
proof -
  assume a: "cols_dict cs k = Some h"
  then have ne: "filter (\<lambda>h. lower h = k) cs \<noteq> []" and h: "h = last (filter (\<lambda>h. lower h = k) cs)"
    by (auto simp: cols_dict_last split: if_splits)
  from ne have "last (filter (\<lambda>h. lower h = k) cs) \<in> set (filter (\<lambda>h. lower h = k) cs)"
    by (rule last_in_set)
  with h show ?thesis by simp
qed

lemma find_col_Some:
  assumes "find_col df cands = Some h"
  shows "h \<in> set (columns df) \<and> (\<exists>c \<in> set cands. lower h = lower c)"
proof -
  from assms obtain c where "c \<in> set cands" "cols_dict (columns df) (lower c) = Some h"
    unfolding find_col_def by (blast dest: find_col_loop_Some)
  then show ?thesis by (blast dest: cols_dict_Some)
qed

lemma fact_nth_Client:
  assumes "i < length (fact lib df)"
  shows "i < length (client_column lib df (find_col df [''Client'', ''Customer'', ''Account''])) \<and>
         Client (fact lib df ! i) =
           client_column lib df (find_col df [''Client'', ''Customer'', ''Account'']) ! i"
  using assms by (simp add: fact_def Let_def)

text \<open>
  C8 (amended). For every fact row: when no client column is resolved, the client key
  is the literal "(Unmapped)", which nothing tells apart from a client of that name;
  when the client column is resolved, the client key is the text of the row's cell, and
  for an empty cell that is the text the library gives a missing value, not
  "(Unmapped)".
\<close>

theorem fact_client_key:
  assumes "i < length (fact lib df)"
  shows "(find_col df [''Client'', ''Customer'', ''Account''] = None \<longrightarrow>
            Client (fact lib df ! i) = ''(Unmapped)'') \<and>
         (\<forall>h. find_col df [''Client'', ''Customer'', ''Account''] = Some h \<longrightarrow>
            Client (fact lib df ! i) = astype_str lib (getcol df h ! i) \<and>
            (getcol df h ! i = Null \<longrightarrow> Client (fact lib df ! i) = str_na lib))"
proof (cases "find_col df [''Client'', ''Customer'', ''Account'']")
  case None
  with fact_nth_Client [OF assms] show ?thesis
    by (simp add: client_column_def)
next
  case (Some h)
  from find_col_Some [OF Some] have "h \<noteq> []"
    by (auto dest: lower_Nil_iff)
  with Some fact_nth_Client [OF assms] show ?thesis
    by (simp add: client_column_def truthy_def)
qed

text \<open>
  The amended C8 on the sample sheet, whose second row has an empty client cell: the
  key of that row is the missing-value text; without the client column the key of the
  first row is "(Unmapped)".
\<close>

theorem fact_client_key_witness:
  "1 < length (fact demo_lib demo_source) \<and>
   find_col demo_source [''Client'', ''Customer'', ''Account''] = Some ''Client'' \<and>
   getcol demo_source ''Client'' ! 1 = Null \<and>
   Client (fact demo_lib demo_source ! 1) = str_na demo_lib \<and>
   0 < length (fact demo_lib (tl demo_source)) \<and>
   find_col (tl demo_source) [''Client'', ''Customer'', ''Account''] = None \<and>
   Client (fact demo_lib (tl demo_source) ! 0) = ''(Unmapped)''"
proof -
  have l: "1 < length (fact demo_lib demo_source)" by (simp add: demo_fact_rows)
  have c: "find_col demo_source [''Client'', ''Customer'', ''Account''] = Some ''Client''"
    by code_simp
  have n: "getcol demo_source ''Client'' ! 1 = Null" by code_simp
  have l': "0 < length (fact demo_lib (tl demo_source))" by code_simp
  have c': "find_col (tl demo_source) [''Client'', ''Customer'', ''Account''] = None"
    by code_simp
  from fact_client_key [OF l] fact_client_key [OF l'] l c n l' c' show ?thesis by simp
qed

text \<open>
  C8 as stated fails: the client column of the sample sheet resolves, the client cell of
  its second row is empty, and the client key of that row is \<^verbatim>\<open><NA>\<close>, not
  "(Unmapped)".
\<close>

theorem fact_client_empty_cell_counterexample:
  "find_col demo_source [''Client'', ''Customer'', ''Account''] = Some ''Client'' \<and>
   getcol demo_source ''Client'' ! 1 = Null \<and>
   Client (fact demo_lib demo_source ! 1) = ''<NA>'' \<and>
   Client (fact demo_lib demo_source ! 1) \<noteq> ''(Unmapped)''"
  by code_simp

subsection \<open>Filter Engine\<close>

lemma select_rows_map: "select_rows rows (map P rows) = filter P rows"
  by (induction rows) (auto simp: select_rows_def)

lemma mask_of_map:
  "mask_of (map c rows) (map p rows) sel (lo, hi) =
     map (\<lambda>r. (sel = [] \<or> c r \<in> set sel) \<and>
               (\<exists>t. p r = Some t \<and> lo \<le> t \<and> t \<le> hi)) rows"
  by (induction rows) (auto simp: mask_of_def isin_def between_def split: option.splits)

text \<open>
  C5. For every fact table, forecast table, client selection and date range, the
  filtered tables keep exactly the records, in their order, whose client is in the
  selection (or any client when the selection is empty) and whose period is present and
  lies between the two ends of the range, the ends included. A record without a period
  is never kept.
\<close>

theorem filter_keeps_exactly:
  "fact_f fct sel_clients (lo, hi) =
     filter (\<lambda>r. (sel_clients = [] \<or> Client r \<in> set sel_clients) \<and>
                 (\<exists>p. Period r = Some p \<and> lo \<le> p \<and> p \<le> hi)) fct \<and>
   forecast_f fc sel_clients (lo, hi) =
     filter (\<lambda>r. (sel_clients = [] \<or> fc_Client r \<in> set sel_clients) \<and>
                 (\<exists>p. fc_Period r = Some p \<and> lo \<le> p \<and> p \<le> hi)) fc"
  by (simp add: fact_f_def forecast_f_def mask_def fmask_def mask_of_map select_rows_map)

text \<open>
  C5 on the sample records: with the selection A, C and the range from 5 January to
  10 February 2025 only the second fact record is kept (the record of C has no period,
  the other record of A is later than the range); with the empty selection the first two
  are kept, and every forecast record with a period passes a range over 2025.
\<close>

theorem filter_keeps_exactly_witness:
  "fact_f demo_facts [''A'', ''C''] ((2025, 1, 5, 0), (2025, 2, 10, 0)) = [demo_facts ! 1] \<and>
   fact_f demo_facts [] ((2025, 1, 5, 0), (2025, 2, 10, 0)) = take 2 demo_facts \<and>
   forecast_f demo_forecasts [] ((2025, 1, 1, 0), (2025, 12, 31, 0)) = take 2 demo_forecasts"
  using
    filter_keeps_exactly
      [of demo_facts "[''A'', ''C'']" "(2025, 1, 5, 0)" "(2025, 2, 10, 0)" demo_forecasts]
    filter_keeps_exactly
      [of demo_facts "[]" "(2025, 1, 5, 0)" "(2025, 2, 10, 0)" demo_forecasts]
    filter_keeps_exactly
      [of demo_facts "[]" "(2025, 1, 1, 0)" "(2025, 12, 31, 0)" demo_forecasts]
  by (simp add: demo_facts_def demo_forecasts_def)

subsection \<open>KPIs\<close>

lemma notna_iff: "notna v \<longleftrightarrow> v \<noteq> None"
  by (cases v) (simp_all add: notna_def)

lemma demo_zero_sums:
  "rev_kpi demo_zero = Some 0"
  "cost_kpi demo_zero = Some 10"
  "gp_kpi demo_zero = Some (- 310)"
  by (simp_all add: demo_zero_def rev_kpi_def cost_kpi_def gp_kpi_def)

lemma demo_empty_selection:
  "fact_f demo_facts [''Z''] ((2025, 1, 1, 0), (2025, 12, 31, 0)) = []"
  by code_simp

text \<open>
  C9. Whenever the summed revenue is exactly 0 the margin is missing, while the cost
  and gross profit sums are numbers; and a margin that is present is the quotient of the
  gross profit sum by a revenue sum different from 0, times 100, so the division is
  never formed with a zero divisor.
\<close>

theorem margin_null_when_revenue_zero:
  "(rev_kpi ff = Some 0 \<longrightarrow> margin ff = None \<and> cost_kpi ff \<noteq> None \<and> gp_kpi ff \<noteq> None) \<and>
   (\<forall>m. margin ff = Some m \<longrightarrow>
      (\<exists>r g. rev_kpi ff = Some r \<and> gp_kpi ff = Some g \<and> r \<noteq> 0 \<and> m = g / r * 100))"
  by (auto simp: margin_def rev_kpi_def gp_kpi_def cost_kpi_def split: if_splits)

text \<open>
  C9 on two records with revenues 300 and -300: the revenue sum is 0, the cost sum is
  10, the gross profit sum is -310, and the margin is missing. On the four sample
  records the revenue sum is 400 and the margin is present.
\<close>

theorem margin_null_when_revenue_zero_witness:
  "rev_kpi demo_zero = Some 0 \<and> cost_kpi demo_zero = Some 10 \<and>
   gp_kpi demo_zero = Some (- 310) \<and> margin demo_zero = None \<and>
   margin demo_facts = Some (- 50 / 400 * 100)"
proof -
  from margin_null_when_revenue_zero [of demo_zero] demo_zero_sums(1)
  have "margin demo_zero = None" by blast
  moreover have "margin demo_facts = Some (- 50 / 400 * 100)"
    by (simp add: margin_def rev_kpi_def gp_kpi_def demo_facts_def)
  ultimately show ?thesis
    by (simp add: demo_zero_sums)
qed

text \<open>
  C1, what the code does where the claim asks for "no data". Whenever the filters
  select no fact record, the margin is missing and its card shows "No data", but
  revenue, cost and gross profit are each the sum of nothing, which is the number 0, so
  the test \<^verbatim>\<open>pd.isna(val)\<close> that the card loop applies to them is false and their
  cards show 0.
\<close>

theorem kpis_empty:
  assumes "fact_f fct sel_clients sel_date = []"
  shows "rev_kpi (fact_f fct sel_clients sel_date) = Some 0 \<and>
         cost_kpi (fact_f fct sel_clients sel_date) = Some 0 \<and>
         gp_kpi (fact_f fct sel_clients sel_date) = Some 0 \<and>
         margin (fact_f fct sel_clients sel_date) = None \<and>
         kpi_cards (fact_f fct sel_clients sel_date) =
           [(''Revenue'', Shown 0), (''Cost'', Shown 0), (''Gross Profit'', Shown 0),
            (''Margin %'', No_data)]"
  by (simp add: assms rev_kpi_def cost_kpi_def gp_kpi_def margin_def kpi_cards_def kpi_card_def)

text \<open>
  C1 on the sample records with the selection Z, a client no record has: nothing is
  selected, and the four cards are 0, 0, 0 and "No data".
\<close>

theorem kpis_empty_witness:
  "fact_f demo_facts [''Z''] ((2025, 1, 1, 0), (2025, 12, 31, 0)) = [] \<and>
   kpi_cards (fact_f demo_facts [''Z''] ((2025, 1, 1, 0), (2025, 12, 31, 0))) =
     [(''Revenue'', Shown 0), (''Cost'', Shown 0), (''Gross Profit'', Shown 0),
      (''Margin %'', No_data)]"
  using kpis_empty [OF demo_empty_selection] demo_empty_selection by simp

subsection \<open>Top clients\<close>














subsection \<open>Actual against forecast\<close>

text \<open>
  C10. The reconciliation table is built exactly when some filtered forecast record has
  a period: when every filtered forecast record lacks one, no table is built, whatever
  the filtered actuals hold.
\<close>

theorem af_guard:
  "(af lib ff fcf = None) = (\<forall>r \<in> set fcf. fc_Period r = None)"
proof (cases "list_ex (\<lambda>r. notna (fc_Period r)) fcf")
  case True
  then have "\<not> (\<forall>r \<in> set fcf. fc_Period r = None)"
    unfolding list_ex_iff notna_iff by meson
  with True show ?thesis
    unfolding af_def Let_def by simp
next
  case False
  then have "\<forall>r \<in> set fcf. fc_Period r = None"
    unfolding list_ex_iff notna_iff by meson
  with False show ?thesis
    unfolding af_def by simp
qed

text \<open>
  C10 on the sample records: with the one forecast record that has no period no table
  is built, although the actuals have months with revenue (their trend is built); with
  all three forecast records the table is built.
\<close>

theorem af_guard_witness:
  "af demo_lib demo_facts [demo_forecasts ! 2] = None \<and>
   af demo_lib demo_facts demo_forecasts \<noteq> None \<and>
   ts demo_lib demo_facts \<noteq> None"
  using af_guard [of demo_lib demo_facts "[demo_forecasts ! 2]"]
    af_guard [of demo_lib demo_facts demo_forecasts]
  by (simp add: demo_forecasts_def demo_facts_def ts_def notna_iff)












lemma demo_forecast_dated:
  "\<exists>r \<in> set (forecast_f demo_forecasts [] ((2025, 1, 1, 0), (2025, 12, 31, 0))).
     fc_Period r \<noteq> None"
  by code_simp




end
